theory Spec2Isabelle
  imports Complex_Main
begin

section \<open>Trana: incident store, connection registry, broadcasts and escalation timer\<close>

text \<open>
  A shallow embedding of \<^verbatim>\<open>src/server.ts\<close> (the Express/WebSocket server) and of the
  \<^verbatim>\<open>resolveIncident\<close> handler of the React client (\<^verbatim>\<open>src/unnamed/part_000\<close>).

  The SQLite tables are lists of rows in rowid order, the \<^verbatim>\<open>clients\<close> map is an
  association list in insertion order (a JavaScript \<^verbatim>\<open>Map\<close> iterates in insertion order),
  every \<^verbatim>\<open>client.send\<close> appends to a log of sent frames, and a handler that throws
  returns \<open>Inl\<close> of the error next to the state it leaves behind (Express answers such a
  request with status 500). Timestamps are whole seconds since the epoch, which is what
  \<^verbatim>\<open>strftime('%s', ...)\<close> reads from a \<^verbatim>\<open>CURRENT_TIMESTAMP\<close> column. Every SQL statement
  that reads the clock gets its own reading as an argument: the clock may pass to the next
  second between two statements of one handler.
\<close>

subsection \<open>Data model\<close>

text \<open>The values of \<^verbatim>\<open>incidents.status\<close> that the server writes or compares with.\<close>

datatype status =
  Triggered | Escalating | HospitalNotified | CommandAlerted | Accepted | Resolved | Closed

text \<open>
  A row of \<^verbatim>\<open>users\<close>: the columns the server reads or writes after registration
  (\<^verbatim>\<open>name\<close>, \<^verbatim>\<open>email\<close>, \<^verbatim>\<open>password\<close> and \<^verbatim>\<open>verified\<close> are only used by the login routes).
  \<^verbatim>\<open>status\<close> has a default but no \<^verbatim>\<open>NOT NULL\<close>, so it is nullable.
\<close>

record user =
  user_id :: int
  role :: string
  user_status :: "string option"
  user_lat :: "real option"
  user_lng :: "real option"
  last_seen :: int

record incident =
  incident_id :: int
  incident_type :: string
  status :: status
  severity :: "string option"
  lat :: real
  lng :: real
  reporter_id :: "int option"
  responder_id :: "int option"
  created_at :: int
  updated_at :: int

record stats =
  totalIncidents :: nat
  activeResponders :: nat
  resolvedToday :: nat
  safetyScore :: nat

text \<open>
  The frames the server sends. \<^verbatim>\<open>JSON.stringify\<close> drops a property whose value is
  \<^verbatim>\<open>undefined\<close>, so the incident of an \<^verbatim>\<open>incident_updated\<close> frame is optional.
\<close>

datatype message =
    IncidentUpdated "incident option"
  | IncidentAccepted int "int option"
  | StatsUpdate stats
  | UserLocationUpdate int "real option" "real option"

datatype error = SqliteError string | TypeError string | ReferenceError string

datatype response = StatusOk

type_synonym ws = nat

datatype ready_state = CONNECTING | OPEN | CLOSING | CLOSED

text \<open>
  The state of the server process: the two tables with the \<^verbatim>\<open>sqlite_sequence\<close> counter
  of \<^verbatim>\<open>incidents\<close> (the column is \<^verbatim>\<open>AUTOINCREMENT\<close>), whether the connection enforces
  foreign keys (a setting of the database library, not of this repository), the
  \<^verbatim>\<open>clients\<close> map, the \<^verbatim>\<open>userId\<close> variable that each connection's closure holds, the
  \<^verbatim>\<open>readyState\<close> of every socket, and the log of frames handed to \<^verbatim>\<open>send\<close>.
\<close>

record server =
  users :: "user list"
  incidents :: "incident list"
  incidents_seq :: int
  foreign_keys :: bool
  clients :: "(int \<times> ws) list"
  userId :: "ws \<Rightarrow> int option"
  readyState :: "ws \<Rightarrow> ready_state"
  sent :: "(ws \<times> message) list"

subsection \<open>The \<^verbatim>\<open>clients\<close> map\<close>

text \<open>
  \<^verbatim>\<open>Map.prototype.set\<close> keeps the position of a key that is already present and appends
  a new one; \<^verbatim>\<open>get\<close> returns \<^verbatim>\<open>undefined\<close> (here \<open>None\<close>) for a missing key; \<^verbatim>\<open>delete\<close>
  removes the entry and is silent when there is none.
\<close>

fun Map_set :: "int \<Rightarrow> ws \<Rightarrow> (int \<times> ws) list \<Rightarrow> (int \<times> ws) list" where
  "Map_set k v [] = [(k, v)]"
| "Map_set k v ((k', v') # m) = (if k' = k then (k, v) # m else (k', v') # Map_set k v m)"

fun Map_get :: "(int \<times> ws) list \<Rightarrow> int \<Rightarrow> ws option" where
  "Map_get [] k = None"
| "Map_get ((k', v') # m) k = (if k' = k then Some v' else Map_get m k)"

definition Map_delete :: "int \<Rightarrow> (int \<times> ws) list \<Rightarrow> (int \<times> ws) list" where
  "Map_delete k m = filter (\<lambda>e. fst e \<noteq> k) m"

text \<open>
  \<^verbatim>\<open>if (userId)\<close>: \<^verbatim>\<open>null\<close>, \<^verbatim>\<open>undefined\<close> and \<^verbatim>\<open>0\<close> are falsy; a truthy id is the
  number itself.
\<close>

fun truthy :: "int option \<Rightarrow> int option" where
  "truthy None = None"
| "truthy (Some n) = (if n \<noteq> 0 then Some n else None)"

subsection \<open>Broadcasts\<close>

text \<open>
  \<^verbatim>\<open>if (client && client.readyState === WebSocket.OPEN) client.send(data)\<close>, the guard
  around every send of the server.
\<close>

definition send_if_open :: "ws option \<Rightarrow> message \<Rightarrow> server \<Rightarrow> server" where
  "send_if_open client data s =
     (case client of
        None \<Rightarrow> s
      | Some w \<Rightarrow> if readyState s w = OPEN then s\<lparr>sent := sent s @ [(w, data)]\<rparr> else s)"

definition responder_roles :: "string list" where
  "responder_roles = [''doctor'', ''police'', ''volunteer'', ''command'', ''admin'']"

text \<open>
  \<^verbatim>\<open>SELECT id FROM users WHERE role IN (...) AND status = 'active'\<close>; a \<^verbatim>\<open>NULL\<close> status
  does not compare equal to \<^verbatim>\<open>'active'\<close>.
\<close>

definition select_responders :: "user list \<Rightarrow> int list" where
  "select_responders us =
     map user_id (filter (\<lambda>u. role u \<in> set responder_roles \<and> user_status u = Some ''active'') us)"

definition broadcastToResponders :: "message \<Rightarrow> server \<Rightarrow> server" where
  "broadcastToResponders data s =
     foldl (\<lambda>st r. send_if_open (Map_get (clients st) r) data st) s (select_responders (users s))"

text \<open>
  \<^verbatim>\<open>date(t, '+5 hours', '30 minutes')\<close>: the calendar day of \<open>t\<close> in IST, as a day number.
\<close>

definition ist_date :: "int \<Rightarrow> int" where
  "ist_date t = (t + 19800) div 86400"

definition compute_stats :: "int \<Rightarrow> server \<Rightarrow> stats" where
  "compute_stats now s =
     \<lparr>totalIncidents = length (incidents s),
      activeResponders = length (filter (\<lambda>u. role u \<in> set [''doctor'', ''police'', ''volunteer'']
                                           \<and> user_status u = Some ''active'') (users s)),
      resolvedToday = length (filter (\<lambda>i. status i = Resolved
                                         \<and> ist_date (updated_at i) = ist_date now) (incidents s)),
      safetyScore = 84\<rparr>"

definition broadcastStats :: "int \<Rightarrow> server \<Rightarrow> server" where
  "broadcastStats now s =
     (let broadcastData = StatsUpdate (compute_stats now s)
      in foldl (\<lambda>st client. send_if_open (Some client) broadcastData st) s (map snd (clients s)))"

subsection \<open>The escalation timer\<close>

text \<open>
  An \<^verbatim>\<open>UPDATE ... SET ... WHERE ...\<close> on \<^verbatim>\<open>incidents\<close>: the new table and the number of rows
  changed (\<^verbatim>\<open>.run().changes\<close>).
\<close>

definition sql_update ::
  "(incident \<Rightarrow> bool) \<Rightarrow> (incident \<Rightarrow> incident) \<Rightarrow> incident list \<Rightarrow> incident list \<times> nat" where
  "sql_update wh st rows = (map (\<lambda>r. if wh r then st r else r) rows, length (filter wh rows))"

text \<open>\<^verbatim>\<open>strftime('%s','now') - strftime('%s', created_at)\<close>\<close>

definition age :: "int \<Rightarrow> incident \<Rightarrow> int" where
  "age now r = now - created_at r"

definition tier2_where :: "int \<Rightarrow> incident \<Rightarrow> bool" where
  "tier2_where now r = (status r = Triggered \<and> 60 \<le> age now r \<and> age now r \<le> 119)"

definition tier3_where :: "int \<Rightarrow> incident \<Rightarrow> bool" where
  "tier3_where now r = (status r = Escalating \<and> 120 \<le> age now r \<and> age now r \<le> 179)"

definition tier4_where :: "int \<Rightarrow> incident \<Rightarrow> bool" where
  "tier4_where now r = (status r = HospitalNotified \<and> 180 < age now r)"

definition set_status :: "status \<Rightarrow> int \<Rightarrow> incident \<Rightarrow> incident" where
  "set_status st now r = r\<lparr>status := st, updated_at := now\<rparr>"

definition escalated :: "incident \<Rightarrow> bool" where
  "escalated r = (status r \<in> set [Escalating, HospitalNotified, CommandAlerted])"

text \<open>
  The three \<^verbatim>\<open>UPDATE\<close> statements of the timer callback. Each is prepared and run on its
  own, and each evaluates \<^verbatim>\<open>strftime('%s','now')\<close> and \<^verbatim>\<open>CURRENT_TIMESTAMP\<close> when it runs:
  \<open>now\<close> is the clock reading of that statement.
\<close>

definition tier2_run :: "int \<Rightarrow> incident list \<Rightarrow> incident list \<times> nat" where
  "tier2_run now rows = sql_update (tier2_where now) (set_status Escalating now) rows"

definition tier3_run :: "int \<Rightarrow> incident list \<Rightarrow> incident list \<times> nat" where
  "tier3_run now rows = sql_update (tier3_where now) (set_status HospitalNotified now) rows"

definition tier4_run :: "int \<Rightarrow> incident list \<Rightarrow> incident list \<times> nat" where
  "tier4_run now rows = sql_update (tier4_where now) (set_status CommandAlerted now) rows"

text \<open>
  The clock readings of one run of the callback: one for each of the three updates, and
  one for each call of \<^verbatim>\<open>broadcastStats\<close> (which evaluates \<^verbatim>\<open>date('now', ...)\<close>), the calls
  counted from 0. The readings of one run may differ: the clock can pass to the next
  second between two statements.
\<close>

record tick_clock =
  at_tier2 :: int
  at_tier3 :: int
  at_tier4 :: int
  at_stats :: "nat \<Rightarrow> int"

text \<open>
  The body of the \<^verbatim>\<open>setInterval\<close> callback: the three updates run one after the other,
  and when one of them changed a row, every incident now in an escalated status is
  broadcast, each followed by a call of \<^verbatim>\<open>broadcastStats\<close> (the call is inside the
  \<^verbatim>\<open>forEach\<close>).
\<close>

definition escalation_updates :: "tick_clock \<Rightarrow> incident list \<Rightarrow> incident list \<times> nat \<times> nat \<times> nat" where
  "escalation_updates c rows =
     (let (rows2, tier2) = tier2_run (at_tier2 c) rows;
          (rows3, tier3) = tier3_run (at_tier3 c) rows2;
          (rows4, tier4) = tier4_run (at_tier4 c) rows3
      in (rows4, tier2, tier3, tier4))"

definition escalation_tick :: "tick_clock \<Rightarrow> server \<Rightarrow> server" where
  "escalation_tick c s =
     (let (rows, tier2, tier3, tier4) = escalation_updates c (incidents s);
          s1 = s\<lparr>incidents := rows\<rparr>
      in if tier2 > 0 \<or> tier3 > 0 \<or> tier4 > 0
         then foldl (\<lambda>st (k, inc). broadcastStats (at_stats c k)
                                     (broadcastToResponders (IncidentUpdated (Some inc)) st))
                s1 (enumerate 0 (filter escalated (incidents s1)))
         else s1)"


subsection \<open>WebSocket connections\<close>

text \<open>
  The outcome of \<^verbatim>\<open>jwt.verify(data.token, JWT_SECRET)\<close>: it throws, or it returns the
  payload, whose \<^verbatim>\<open>id\<close> may be missing.
\<close>

datatype jwt_verify = Throws | Decoded "int option"

datatype ws_data =
    Auth jwt_verify
  | LocationUpdate "real option" "real option"
  | OtherData

text \<open>
  \<^verbatim>\<open>UPDATE users SET lat = ?, lng = ?, last_seen = CURRENT_TIMESTAMP WHERE id = ?\<close>
\<close>

definition update_user_location :: "int \<Rightarrow> real option \<Rightarrow> real option \<Rightarrow> int \<Rightarrow> user list \<Rightarrow> user list" where
  "update_user_location now la lo uid us =
     map (\<lambda>u. if user_id u = uid then u\<lparr>user_lat := la, user_lng := lo, last_seen := now\<rparr> else u) us"

text \<open>\<^verbatim>\<open>SELECT id FROM users WHERE role IN ('admin', 'command')\<close>\<close>

definition select_admins :: "user list \<Rightarrow> int list" where
  "select_admins us = map user_id (filter (\<lambda>u. role u \<in> set [''admin'', ''command'']) us)"

text \<open>
  \<^verbatim>\<open>ws.on('message', ...)\<close> on the connection \<open>w\<close>. A token that does not verify leaves
  \<^verbatim>\<open>userId\<close> as it was (the \<^verbatim>\<open>catch\<close> is empty); a verified one overwrites it and, when
  the id is truthy, binds the id to this socket in \<^verbatim>\<open>clients\<close>.
\<close>

definition ws_message :: "int \<Rightarrow> ws \<Rightarrow> ws_data \<Rightarrow> server \<Rightarrow> server" where
  "ws_message now w data s =
     (case data of
        Auth Throws \<Rightarrow> s
      | Auth (Decoded i) \<Rightarrow>
          (let s1 = s\<lparr>userId := (userId s)(w := i)\<rparr>
           in case truthy i of
                Some uid \<Rightarrow> s1\<lparr>clients := Map_set uid w (clients s1)\<rparr>
              | None \<Rightarrow> s1)
      | LocationUpdate la lo \<Rightarrow>
          (case truthy (userId s w) of
             Some uid \<Rightarrow>
               (let s1 = s\<lparr>users := update_user_location now la lo uid (users s)\<rparr>
                in foldl (\<lambda>st a. if a \<noteq> uid
                                   then send_if_open (Map_get (clients st) a) (UserLocationUpdate uid la lo) st
                                   else st)
                     s1 (select_admins (users s1)))
           | None \<Rightarrow> s)
      | OtherData \<Rightarrow> s)"

text \<open>
  \<^verbatim>\<open>ws.on('close', ...)\<close>: the socket \<open>w\<close> has closed, and the handler deletes the entry
  of this connection's \<^verbatim>\<open>userId\<close>, whichever socket that entry holds.
\<close>

definition ws_close :: "ws \<Rightarrow> server \<Rightarrow> server" where
  "ws_close w s =
     (let s1 = s\<lparr>readyState := (readyState s)(w := CLOSED)\<rparr>
      in case truthy (userId s1 w) of
           Some uid \<Rightarrow> s1\<lparr>clients := Map_delete uid (clients s1)\<rparr>
         | None \<Rightarrow> s1)"

subsection \<open>The incident routes\<close>

text \<open>A foreign key holds when the reference is \<^verbatim>\<open>NULL\<close> or names a row of \<^verbatim>\<open>users\<close>.\<close>

definition fk_ok :: "user list \<Rightarrow> int option \<Rightarrow> bool" where
  "fk_ok us ref = (case ref of None \<Rightarrow> True | Some u \<Rightarrow> u \<in> set (map user_id us))"

text \<open>
  The rowid of an \<^verbatim>\<open>AUTOINCREMENT\<close> table: one more than the largest rowid the table has
  ever held.
\<close>

definition next_rowid :: "server \<Rightarrow> int" where
  "next_rowid s = fold max (map incident_id (incidents s)) (incidents_seq s) + 1"

text \<open>
  \<^verbatim>\<open>INSERT INTO incidents (type, lat, lng, reporter_id, severity) VALUES (?, ?, ?, ?, ?)\<close>.
  A field missing from the request body is bound as \<^verbatim>\<open>NULL\<close>; \<^verbatim>\<open>type\<close>, \<^verbatim>\<open>lat\<close> and
  \<^verbatim>\<open>lng\<close> are \<^verbatim>\<open>NOT NULL\<close>; \<^verbatim>\<open>status\<close>, \<^verbatim>\<open>created_at\<close> and \<^verbatim>\<open>updated_at\<close> take their
  defaults; \<^verbatim>\<open>responder_id\<close> is \<^verbatim>\<open>NULL\<close>.
\<close>

definition insert_incident ::
  "int \<Rightarrow> string option \<Rightarrow> real option \<Rightarrow> real option \<Rightarrow> int option \<Rightarrow> string option \<Rightarrow> server
     \<Rightarrow> error + (int \<times> server)" where
  "insert_incident now ty la lo reporterId sev s =
     (case (ty, la, lo) of
        (Some ty', Some la', Some lo') \<Rightarrow>
          if foreign_keys s \<and> \<not> fk_ok (users s) reporterId
          then Inl (SqliteError ''FOREIGN KEY constraint failed'')
          else (let rowid = next_rowid s;
                    row = \<lparr>incident_id = rowid, incident_type = ty', status = Triggered,
                           severity = sev, lat = la', lng = lo', reporter_id = reporterId,
                           responder_id = None, created_at = now, updated_at = now\<rparr>
                in Inr (rowid, s\<lparr>incidents := incidents s @ [row], incidents_seq := rowid\<rparr>))
      | _ \<Rightarrow> Inl (SqliteError ''NOT NULL constraint failed''))"

text \<open>
  The argument of the \<^verbatim>\<open>new_incident\<close> broadcast in \<^verbatim>\<open>POST /api/incidents\<close> is the object
  \<^verbatim>\<open>{ id: incidentId, type, lat, lng, severity, language: language || 'en', ... }\<close>.
  The handler binds \<^verbatim>\<open>type, lat, lng, reporterId, severity\<close> from the body, and nothing in
  \<^verbatim>\<open>server.ts\<close> declares or imports \<^verbatim>\<open>language\<close>: reading it throws a
  \<^verbatim>\<open>ReferenceError\<close> while the argument is evaluated, before \<^verbatim>\<open>broadcastToResponders\<close>
  is entered.
\<close>

text \<open>
  \<^verbatim>\<open>app.post('/api/incidents', ...)\<close>. The result is the error thrown or the id sent with
  \<^verbatim>\<open>res.json\<close>, next to the state left behind. After the insert nothing else of the
  handler runs: the throw happens in the first statement after it, so neither
  \<^verbatim>\<open>broadcastToResponders\<close> nor \<^verbatim>\<open>broadcastStats\<close> nor \<^verbatim>\<open>res.json({ id: incidentId })\<close>
  is reached.
\<close>

definition create_incident ::
  "int \<Rightarrow> string option \<Rightarrow> real option \<Rightarrow> real option \<Rightarrow> int option \<Rightarrow> string option \<Rightarrow> server
     \<Rightarrow> (error + int) \<times> server" where
  "create_incident now ty la lo reporterId sev s =
     (case insert_incident now ty la lo reporterId sev s of
        Inl e \<Rightarrow> (Inl e, s)
      | Inr (incidentId, s1) \<Rightarrow> (Inl (ReferenceError ''language is not defined''), s1))"

text \<open>\<^verbatim>\<open>SELECT * FROM incidents WHERE id = ?\<close> with \<^verbatim>\<open>.get\<close>: the first row, or \<^verbatim>\<open>undefined\<close>.\<close>

definition get_incident :: "int \<Rightarrow> incident list \<Rightarrow> incident option" where
  "get_incident i rows = find (\<lambda>r. incident_id r = i) rows"

text \<open>
  \<^verbatim>\<open>app.post('/api/incidents/:id/accept', ...)\<close>. The path parameter is compared with the
  \<^verbatim>\<open>INTEGER\<close> column under integer affinity and is modelled by its integer value (a text
  that is no integer behaves as an id that names no row). The update is unconditional in
  the current status and responder. With foreign keys enforced, a row that would get a
  \<^verbatim>\<open>responder_id\<close> naming no user makes \<^verbatim>\<open>.run\<close> throw and the table is left as it was.
  When no row has the id, \<^verbatim>\<open>incident\<close> is \<^verbatim>\<open>undefined\<close> and reading
  \<^verbatim>\<open>incident.reporter_id\<close> throws a \<^verbatim>\<open>TypeError\<close>. The update reads the clock at \<open>now\<close>,
  \<^verbatim>\<open>broadcastStats\<close> at \<open>now_stats\<close>.
\<close>

definition accept_incident ::
  "int \<Rightarrow> int \<Rightarrow> int \<Rightarrow> int option \<Rightarrow> server \<Rightarrow> (error + response) \<times> server" where
  "accept_incident now now_stats i responderId s =
     (let (rows, changes) = sql_update (\<lambda>r. incident_id r = i)
                              (\<lambda>r. r\<lparr>status := Accepted, responder_id := responderId, updated_at := now\<rparr>)
                              (incidents s)
      in if foreign_keys s \<and> changes > 0 \<and> \<not> fk_ok (users s) responderId
         then (Inl (SqliteError ''FOREIGN KEY constraint failed''), s)
         else (let s1 = s\<lparr>incidents := rows\<rparr>
               in case get_incident i (incidents s1) of
                    None \<Rightarrow> (Inl (TypeError ''Cannot read properties of undefined''), s1)
                  | Some incident \<Rightarrow>
                      (let reporterClient = (case reporter_id incident of
                                               None \<Rightarrow> None
                                             | Some r \<Rightarrow> Map_get (clients s1) r);
                           s2 = send_if_open reporterClient (IncidentAccepted i responderId) s1;
                           s3 = broadcastToResponders (IncidentUpdated (Some incident)) s2;
                           s4 = broadcastStats now_stats s3
                       in (Inr StatusOk, s4))))"

text \<open>
  \<^verbatim>\<open>app.post('/api/incidents/:id/resolve', ...)\<close>. The handler reads nothing from the
  request body (the client sends \<^verbatim>\<open>{ userId }\<close>), so the acting user, the argument
  \<open>actor\<close> here, has no influence on it. When no row has the id, \<^verbatim>\<open>incident\<close> is
  \<^verbatim>\<open>undefined\<close> and is passed on to the broadcast as it is.
\<close>

definition resolve_incident ::
  "int \<Rightarrow> int \<Rightarrow> int \<Rightarrow> int option \<Rightarrow> server \<Rightarrow> (error + response) \<times> server" where
  "resolve_incident now now_stats i actor s =
     (let (rows, changes) = sql_update (\<lambda>r. incident_id r = i)
                              (\<lambda>r. r\<lparr>status := Resolved, updated_at := now\<rparr>) (incidents s);
          s1 = s\<lparr>incidents := rows\<rparr>;
          incident = get_incident i (incidents s1);
          s2 = broadcastToResponders (IncidentUpdated incident) s1;
          s3 = broadcastStats now_stats s2
      in (Inr StatusOk, s3))"

subsection \<open>The client's \<^verbatim>\<open>resolveIncident\<close>\<close>

text \<open>
  The React client keeps the logged-in user and its own copy of the incident list.
  A JavaScript value that is a number, \<^verbatim>\<open>null\<close> or \<^verbatim>\<open>undefined\<close>, compared with \<^verbatim>\<open>===\<close>.
\<close>

datatype jsnum = Undefined | Null | Num int

record client_user =
  cu_id :: int
  cu_role :: string

record client =
  client_user :: "client_user option"
  client_incidents :: "incident list"

datatype toast = ToastError string | ToastSuccess string

fun column :: "int option \<Rightarrow> jsnum" where
  "column None = Null"
| "column (Some n) = Num n"

text \<open>\<^verbatim>\<open>incident?.responder_id\<close>, \<^verbatim>\<open>incident?.reporter_id\<close> and \<^verbatim>\<open>user?.id\<close>\<close>

definition opt_responder_id :: "incident option \<Rightarrow> jsnum" where
  "opt_responder_id inc = (case inc of None \<Rightarrow> Undefined | Some r \<Rightarrow> column (responder_id r))"

definition opt_reporter_id :: "incident option \<Rightarrow> jsnum" where
  "opt_reporter_id inc = (case inc of None \<Rightarrow> Undefined | Some r \<Rightarrow> column (reporter_id r))"

definition opt_user_id :: "client_user option \<Rightarrow> jsnum" where
  "opt_user_id u = (case u of None \<Rightarrow> Undefined | Some v \<Rightarrow> Num (cu_id v))"

text \<open>\<^verbatim>\<open>GET /api/incidents/active\<close>, which \<^verbatim>\<open>fetchIncidents\<close> stores in the client.\<close>

definition active_incidents :: "server \<Rightarrow> incident list" where
  "active_incidents s = filter (\<lambda>r. status r \<noteq> Resolved \<and> status r \<noteq> Closed) (incidents s)"

text \<open>
  \<^verbatim>\<open>resolveIncident(id)\<close> of the client: the check of responder, reporter and admin role
  is made here, on the client's copy, before any request is sent. The result is the toast
  shown, the client after \<^verbatim>\<open>fetchIncidents\<close>, and the server state.
\<close>

definition resolveIncident ::
  "int \<Rightarrow> int \<Rightarrow> int \<Rightarrow> client \<Rightarrow> server \<Rightarrow> toast option \<times> client \<times> server" where
  "resolveIncident now now_stats i c s =
     (let incident = find (\<lambda>r. incident_id r = i) (client_incidents c);
          isResponder = (opt_responder_id incident = opt_user_id (client_user c));
          isReporter = (opt_reporter_id incident = opt_user_id (client_user c))
      in if \<not> isResponder \<and> \<not> isReporter \<and> map_option cu_role (client_user c) \<noteq> Some ''admin''
         then (Some (ToastError ''Only the assigned responder or the reporter can resolve this.''), c, s)
         else (case resolve_incident now now_stats i (map_option cu_id (client_user c)) s of
                 (Inr StatusOk, s') \<Rightarrow>
                   (Some (ToastSuccess ''Incident marked as resolved.''),
                    c\<lparr>client_incidents := active_incidents s'\<rparr>, s')
               | (Inl e, s') \<Rightarrow> (None, c, s')))"

subsection \<open>Derived notions used in the statements\<close>

text \<open>The sockets that one guarded send reaches: the socket itself when it is open.\<close>

definition receives :: "server \<Rightarrow> ws option \<Rightarrow> ws list" where
  "receives s client =
     (case client of None \<Rightarrow> [] | Some w \<Rightarrow> if readyState s w = OPEN then [w] else [])"

text \<open>The sockets a call of \<^verbatim>\<open>broadcastToResponders\<close> sends to, in order.\<close>

definition responder_sockets :: "server \<Rightarrow> ws list" where
  "responder_sockets s =
     concat (map (\<lambda>r. receives s (Map_get (clients s) r)) (select_responders (users s)))"

text \<open>The sockets a call of \<^verbatim>\<open>broadcastStats\<close> sends to, in order.\<close>

definition open_clients :: "server \<Rightarrow> ws list" where
  "open_clients s = concat (map (\<lambda>w. receives s (Some w)) (map snd (clients s)))"

fun is_stats_update :: "ws \<times> message \<Rightarrow> bool" where
  "is_stats_update (w, StatsUpdate x) = True"
| "is_stats_update (w, m) = False"




text \<open>What each of the three updates does to a single row, and what a whole tick does.\<close>

definition row2 :: "int \<Rightarrow> incident \<Rightarrow> incident" where
  "row2 now r = (if tier2_where now r then set_status Escalating now r else r)"

definition row3 :: "int \<Rightarrow> incident \<Rightarrow> incident" where
  "row3 now r = (if tier3_where now r then set_status HospitalNotified now r else r)"

definition row4 :: "int \<Rightarrow> incident \<Rightarrow> incident" where
  "row4 now r = (if tier4_where now r then set_status CommandAlerted now r else r)"

definition tick_row :: "tick_clock \<Rightarrow> incident \<Rightarrow> incident" where
  "tick_row c r = row4 (at_tier4 c) (row3 (at_tier3 c) (row2 (at_tier2 c) r))"

text \<open>A row that one of the three updates of a tick changes.\<close>

definition tick_changes :: "tick_clock \<Rightarrow> incident \<Rightarrow> bool" where
  "tick_changes c r =
     (tier2_where (at_tier2 c) r
      \<or> tier3_where (at_tier3 c) (row2 (at_tier2 c) r)
      \<or> tier4_where (at_tier4 c) (row3 (at_tier3 c) (row2 (at_tier2 c) r)))"

subsection \<open>A concrete deployment\<close>

text \<open>
  The users that the server seeds at start-up (\<^verbatim>\<open>seedUsers\<close>, ids in insertion order),
  and a volunteer registered afterwards.
\<close>

definition mk_user :: "int \<Rightarrow> string \<Rightarrow> user" where
  "mk_user i r = \<lparr>user_id = i, role = r, user_status = Some ''active'',
                  user_lat = None, user_lng = None, last_seen = 0\<rparr>"

definition seed_users :: "user list" where
  "seed_users = [mk_user 1 ''admin'', mk_user 2 ''doctor'', mk_user 3 ''police'',
                 mk_user 4 ''civilian'', mk_user 5 ''volunteer'']"

definition mk_incident :: "int \<Rightarrow> status \<Rightarrow> int option \<Rightarrow> int option \<Rightarrow> int \<Rightarrow> incident" where
  "mk_incident i st reporter responder created =
     \<lparr>incident_id = i, incident_type = ''medical'', status = st, severity = Some ''critical'',
      lat = 51.5, lng = -0.09, reporter_id = reporter, responder_id = responder,
      created_at = created, updated_at = created\<rparr>"

text \<open>
  A server holding the given incidents, with the given \<^verbatim>\<open>clients\<close> entries; exactly the
  sockets in \<open>up\<close> are open.
\<close>

definition mk_server :: "incident list \<Rightarrow> (int \<times> ws) list \<Rightarrow> ws list \<Rightarrow> server" where
  "mk_server rows cls up =
     \<lparr>users = seed_users, incidents = rows, incidents_seq = int (length rows), foreign_keys = True,
      clients = cls, userId = (\<lambda>w. map_of (map (\<lambda>e. (snd e, fst e)) cls) w),
      readyState = (\<lambda>w. if w \<in> set up then OPEN else CLOSED), sent = []\<rparr>"

text \<open>
  An incident reported at second 0 by the civilian, with the doctor connected; and the same
  with a second incident reported at second 10.
\<close>

text \<open>
  A tick that runs within the second \<open>n\<close> of the clock; and a tick during which the clock
  passes from second 119 to second 120 between the first and the second update.
\<close>

definition clock_at :: "int \<Rightarrow> tick_clock" where
  "clock_at n = \<lparr>at_tier2 = n, at_tier3 = n, at_tier4 = n, at_stats = (\<lambda>k. n)\<rparr>"



definition two_triggered :: server where
  "two_triggered = mk_server [mk_incident 1 Triggered (Some 4) None 0,
                              mk_incident 2 Triggered (Some 4) None 10] [(2, 10)] [10]"

text \<open>
  Four users with a socket each: the admin, a doctor whose account is suspended, the
  civilian, and the police officer whose socket has closed.
\<close>

definition mixed_audience :: server where
  "mixed_audience =
     (mk_server [] [(1, 10), (2, 11), (4, 12), (3, 13)] [10, 11, 12])
       \<lparr>users := [mk_user 1 ''admin'', (mk_user 2 ''doctor'')\<lparr>user_status := Some ''suspended''\<rparr>,
                  mk_user 3 ''police'', mk_user 4 ''civilian'']\<rparr>"

text \<open>Two open sockets and nobody registered; then user 2 authenticates on both, in turn.\<close>

definition two_sockets :: server where
  "two_sockets = mk_server [] [] [10, 11]"

definition reconnected :: server where
  "reconnected = ws_message 6 11 (Auth (Decoded (Some 2)))
                   (ws_message 5 10 (Auth (Decoded (Some 2))) two_sockets)"

text \<open>
  An incident reported by the civilian and accepted by the doctor, with the admin and the
  civilian connected; a server without incidents; and the client of the volunteer, who is
  neither the reporter nor the responder, holding a copy of the accepted incident.
\<close>

definition accepted_case :: server where
  "accepted_case = mk_server [mk_incident 1 Accepted (Some 4) (Some 2) 0] [(1, 10), (4, 11)] [10, 11]"

definition no_incidents :: server where
  "no_incidents = mk_server [] [(1, 10)] [10]"

definition volunteer_client :: client where
  "volunteer_client = \<lparr>client_user = Some \<lparr>cu_id = 5, cu_role = ''volunteer''\<rparr>,
                        client_incidents = incidents accepted_case\<rparr>"

section \<open>Properties\<close>

subsection \<open>Broadcasts only append to the log\<close>

lemma send_if_open_eq:
  "send_if_open client data s = s\<lparr>sent := sent s @ map (\<lambda>w. (w, data)) (receives s client)\<rparr>"
  by (simp add: send_if_open_def receives_def split: option.splits)

lemma receives_sent_update [simp]: "receives (s\<lparr>sent := x\<rparr>) c = receives s c"
  by (simp add: receives_def split: option.splits)

lemma foldl_send:
  "foldl (\<lambda>st r. send_if_open (g (clients st) r) data st) s rs
     = s\<lparr>sent := sent s @ map (\<lambda>w. (w, data)) (concat (map (\<lambda>r. receives s (g (clients s) r)) rs))\<rparr>"
proof (induction rs arbitrary: s)
  case Nil
  show ?case by simp
next
  case (Cons r rs)
  have "foldl (\<lambda>st r. send_if_open (g (clients st) r) data st) s (r # rs)
        = foldl (\<lambda>st r. send_if_open (g (clients st) r) data st) (send_if_open (g (clients s) r) data s) rs"
    by simp
  also have "\<dots> = (send_if_open (g (clients s) r) data s)\<lparr>sent := sent (send_if_open (g (clients s) r) data s) @
       map (\<lambda>w. (w, data)) (concat (map (\<lambda>r'. receives (send_if_open (g (clients s) r) data s)
          (g (clients (send_if_open (g (clients s) r) data s)) r')) rs))\<rparr>"
    by (rule Cons.IH)
  also have "\<dots> = s\<lparr>sent := sent s @ map (\<lambda>w. (w, data)) (concat (map (\<lambda>r. receives s (g (clients s) r)) (r # rs)))\<rparr>"
    by (simp add: send_if_open_eq)
  finally show ?case .
qed

lemma broadcastToResponders_eq:
  "broadcastToResponders data s = s\<lparr>sent := sent s @ map (\<lambda>w. (w, data)) (responder_sockets s)\<rparr>"
  unfolding broadcastToResponders_def responder_sockets_def by (rule foldl_send)

lemma broadcastStats_eq:
  "broadcastStats now s
     = s\<lparr>sent := sent s @ map (\<lambda>w. (w, StatsUpdate (compute_stats now s))) (open_clients s)\<rparr>"
  unfolding broadcastStats_def open_clients_def Let_def
  using foldl_send [where g = "\<lambda>c w. Some w"] by simp

lemma responder_sockets_sent_update [simp]: "responder_sockets (s\<lparr>sent := x\<rparr>) = responder_sockets s"
  by (simp add: responder_sockets_def)

lemma open_clients_sent_update [simp]: "open_clients (s\<lparr>sent := x\<rparr>) = open_clients s"
  by (simp add: open_clients_def)

lemma compute_stats_sent_update [simp]: "compute_stats now (s\<lparr>sent := x\<rparr>) = compute_stats now s"
  by (simp add: compute_stats_def)

lemma receives_incidents_update [simp]: "receives (s\<lparr>incidents := x\<rparr>) c = receives s c"
  by (simp add: receives_def split: option.splits)

lemma responder_sockets_incidents_update [simp]:
  "responder_sockets (s\<lparr>incidents := x\<rparr>) = responder_sockets s"
  by (simp add: responder_sockets_def)

lemma open_clients_incidents_update [simp]: "open_clients (s\<lparr>incidents := x\<rparr>) = open_clients s"
  by (simp add: open_clients_def)

subsection \<open>The three updates, row by row\<close>







lemma row_id [simp]:
  "incident_id (row2 n r) = incident_id r" "incident_id (row3 n r) = incident_id r"
  "incident_id (row4 n r) = incident_id r"
  by (simp_all add: row2_def row3_def row4_def set_status_def)

lemma row_created [simp]:
  "created_at (row2 n r) = created_at r" "created_at (row3 n r) = created_at r"
  "created_at (row4 n r) = created_at r"
  by (simp_all add: row2_def row3_def row4_def set_status_def)

lemma tick_row_id [simp]: "incident_id (tick_row c r) = incident_id r"
  by (simp add: tick_row_def)








lemma tick_changes_status: "tick_changes c r = (status (tick_row c r) \<noteq> status r)"
  by (cases "status r")
     (auto simp add: tick_changes_def tick_row_def row2_def row3_def row4_def tier2_where_def
        tier3_where_def tier4_where_def set_status_def age_def)

subsection \<open>A tick changes the table by the three updates and the log by appending\<close>

lemma escalation_updates_eq:
  "escalation_updates c rows =
     (map (tick_row c) rows,
      length (filter (tier2_where (at_tier2 c)) rows),
      length (filter (\<lambda>r. tier3_where (at_tier3 c) (row2 (at_tier2 c) r)) rows),
      length (filter (\<lambda>r. tier4_where (at_tier4 c) (row3 (at_tier3 c) (row2 (at_tier2 c) r))) rows))"
  by (simp add: escalation_updates_def tier2_run_def tier3_run_def tier4_run_def sql_update_def
      tick_row_def row2_def row3_def row4_def Let_def filter_map comp_def)

lemma foldl_broadcasts_incidents:
  "incidents (foldl (\<lambda>st (k, inc). broadcastStats (f k)
                                     (broadcastToResponders (IncidentUpdated (Some inc)) st)) s ps)
     = incidents s"
  by (induction ps arbitrary: s) (auto simp add: broadcastStats_eq broadcastToResponders_eq)

lemma escalation_tick_eq:
  "escalation_tick c s =
     (if \<exists>r \<in> set (incidents s). tick_changes c r
      then foldl (\<lambda>st (k, inc). broadcastStats (at_stats c k)
                                  (broadcastToResponders (IncidentUpdated (Some inc)) st))
             (s\<lparr>incidents := map (tick_row c) (incidents s)\<rparr>)
             (enumerate 0 (filter escalated (map (tick_row c) (incidents s))))
      else s\<lparr>incidents := map (tick_row c) (incidents s)\<rparr>)"
  by (auto simp add: escalation_tick_def escalation_updates_eq filter_empty_conv tick_changes_def Let_def)

lemma escalation_tick_incidents:
  "incidents (escalation_tick c s) = map (tick_row c) (incidents s)"
  by (simp add: escalation_tick_eq foldl_broadcasts_incidents)






lemma foldl_broadcasts_sent:
  "sent (foldl (\<lambda>st (k, inc). broadcastStats (f k)
                                (broadcastToResponders (IncidentUpdated (Some inc)) st)) s ps)
     = sent s @ concat (map (\<lambda>(k, inc). map (\<lambda>w. (w, IncidentUpdated (Some inc))) (responder_sockets s)
                                  @ map (\<lambda>w. (w, StatsUpdate (compute_stats (f k) s))) (open_clients s)) ps)"
proof (induction ps arbitrary: s)
  case Nil
  show ?case by simp
next
  case (Cons p ps)
  obtain k x where p: "p = (k, x)"
    by (cases p)
  let ?F = "\<lambda>st (k, inc). broadcastStats (f k) (broadcastToResponders (IncidentUpdated (Some inc)) st)"
  have "sent (foldl ?F s (p # ps)) = sent (foldl ?F (?F s p) ps)"
    by simp
  also have "\<dots> = sent (?F s p) @ concat (map (\<lambda>(k, inc). map (\<lambda>w. (w, IncidentUpdated (Some inc))) (responder_sockets (?F s p))
                                  @ map (\<lambda>w. (w, StatsUpdate (compute_stats (f k) (?F s p)))) (open_clients (?F s p))) ps)"
    by (rule Cons.IH)
  also have "\<dots> = sent s @ concat (map (\<lambda>(k, inc). map (\<lambda>w. (w, IncidentUpdated (Some inc))) (responder_sockets s)
                                  @ map (\<lambda>w. (w, StatsUpdate (compute_stats (f k) s))) (open_clients s)) (p # ps))"
    by (simp add: p broadcastStats_eq broadcastToResponders_eq)
  finally show ?case .
qed

lemma count_stats_frames:
  "length (filter is_stats_update
      (concat (map (\<lambda>(k, inc). map (\<lambda>w. (w, IncidentUpdated (Some inc))) rs
                         @ map (\<lambda>w. (w, StatsUpdate (g k))) cs) ps)))
     = length ps * length cs"
  by (induction ps) (auto simp add: filter_map comp_def)

lemma changes_iff:
  "(\<exists>r \<in> set rows. tick_changes c r)
     = (\<exists>i<length rows. status (tick_row c (rows ! i)) \<noteq> status (rows ! i))"
  by (simp add: tick_changes_status) (metis in_set_conv_nth)

subsection \<open>The escalation timer\<close>






text \<open>
  C5, as the code has it. In a tick in which some incident changes its status,
  \<^verbatim>\<open>broadcastStats\<close> runs once for every incident that is in an escalated status after the
  updates: the number of \<^verbatim>\<open>stats_update\<close> frames sent grows by that number of incidents
  times the number of open registered sockets.
\<close>

theorem stats_per_escalated_incident:
  assumes "\<exists>i<length (incidents s).
             status (incidents (escalation_tick c s) ! i) \<noteq> status (incidents s ! i)"
  shows "length (filter is_stats_update (sent (escalation_tick c s)))
           = length (filter is_stats_update (sent s))
             + length (filter escalated (incidents (escalation_tick c s))) * length (open_clients s)"
proof -
  have ch: "\<exists>r \<in> set (incidents s). tick_changes c r"
    using assms by (simp add: changes_iff escalation_tick_incidents cong: conj_cong)
  show ?thesis
    by (simp add: escalation_tick_incidents)
       (simp add: escalation_tick_eq ch foldl_broadcasts_sent count_stats_frames)
qed

theorem stats_per_escalated_incident_witness:
  "status (incidents (escalation_tick (clock_at 75) two_triggered) ! 0) \<noteq> status (incidents two_triggered ! 0)
   \<and> length (filter is_stats_update (sent (escalation_tick (clock_at 75) two_triggered))) = 0 + 2 * 1"
proof -
  have h: "status (incidents (escalation_tick (clock_at 75) two_triggered) ! 0)
             \<noteq> status (incidents two_triggered ! 0)"
    by code_simp
  have l: "0 < length (incidents two_triggered)"
    by code_simp
  have e: "\<exists>i<length (incidents two_triggered).
             status (incidents (escalation_tick (clock_at 75) two_triggered) ! i)
               \<noteq> status (incidents two_triggered ! i)"
    using h l by blast
  have v: "length (filter is_stats_update (sent two_triggered)) = 0"
    "length (filter escalated (incidents (escalation_tick (clock_at 75) two_triggered))) = 2"
    "length (open_clients two_triggered) = 1"
    by code_simp+
  from stats_per_escalated_incident [OF e] v h show ?thesis
    by simp
qed

text \<open>
  C5 as stated fails: with two incidents escalating in one tick and a single open socket,
  that socket is sent the same \<^verbatim>\<open>stats_update\<close> twice in the tick.
\<close>

theorem stats_twice_counterexample:
  "status (incidents (escalation_tick (clock_at 75) two_triggered) ! 0) \<noteq> status (incidents two_triggered ! 0)
   \<and> open_clients two_triggered = [10]
   \<and> filter is_stats_update (sent (escalation_tick (clock_at 75) two_triggered))
       = [(10, StatsUpdate \<lparr>totalIncidents = 2, activeResponders = 3, resolvedToday = 0, safetyScore = 84\<rparr>),
          (10, StatsUpdate \<lparr>totalIncidents = 2, activeResponders = 3, resolvedToday = 0, safetyScore = 84\<rparr>)]"
  by code_simp

subsection \<open>The registry\<close>

lemma Map_get_set_same [simp]: "Map_get (Map_set k v m) k = Some v"
  by (induction m) auto

lemma Map_get_delete_same [simp]: "Map_get (Map_delete k m) k = None"
  by (induction m) (auto simp add: Map_delete_def)

lemma Map_get_None: "(Map_get m k = None) = (k \<notin> fst ` set m)"
  by (induction m) (auto split: if_splits)

lemma Map_get_Some_snd: "Map_get m k = Some w \<Longrightarrow> w \<in> snd ` set m"
  by (induction m) (auto split: if_splits)

lemma Map_delete_set [simp]: "Map_delete k (Map_set k v m) = Map_delete k m"
  by (induction m) (auto simp add: Map_delete_def)

lemma Map_delete_snd: "snd ` set (Map_delete k m) \<subseteq> snd ` set m"
  by (auto simp add: Map_delete_def)

lemma receives_subset: "w \<in> set (receives s c) \<Longrightarrow> c = Some w \<and> readyState s w = OPEN"
  by (auto simp add: receives_def split: option.splits if_splits)

lemma open_clients_subset: "set (open_clients s) \<subseteq> snd ` set (clients s)"
  by (auto simp add: open_clients_def dest!: receives_subset)

lemma responder_sockets_subset: "set (responder_sockets s) \<subseteq> snd ` set (clients s)"
  by (auto simp add: responder_sockets_def dest!: receives_subset Map_get_Some_snd)

lemma responder_sockets_iff:
  "(w \<in> set (responder_sockets s)) =
     (\<exists>u \<in> set (users s). role u \<in> {''doctor'', ''police'', ''volunteer'', ''command'', ''admin''}
          \<and> user_status u = Some ''active''
          \<and> Map_get (clients s) (user_id u) = Some w \<and> readyState s w = OPEN)"
  by (auto simp add: responder_sockets_def select_responders_def responder_roles_def receives_def
      split: option.splits if_splits)

subsection \<open>Targeting of the responder broadcast\<close>

text \<open>
  C10. A call of \<^verbatim>\<open>broadcastToResponders\<close>, whatever the frame (\<^verbatim>\<open>new_incident\<close> or
  \<^verbatim>\<open>incident_updated\<close>), only appends to the log, and the sockets it sends to are exactly
  the open sockets that \<^verbatim>\<open>clients\<close> holds for a row of \<^verbatim>\<open>users\<close> whose role, as stored
  when the frame is sent, is doctor, police, volunteer, command or admin and whose stored
  status is active. A socket registered only for users whose row does not match gets
  nothing.
\<close>

theorem responders_targeting:
  "sent (broadcastToResponders data s) = sent s @ map (\<lambda>w. (w, data)) (responder_sockets s)
   \<and> set (responder_sockets s) =
       {w. \<exists>u \<in> set (users s). role u \<in> {''doctor'', ''police'', ''volunteer'', ''command'', ''admin''}
              \<and> user_status u = Some ''active''
              \<and> Map_get (clients s) (user_id u) = Some w \<and> readyState s w = OPEN}"
  using responder_sockets_iff [of _ s] by (auto simp add: broadcastToResponders_eq)

theorem responders_targeting_witness:
  "sent (broadcastToResponders (IncidentUpdated None) mixed_audience) = [(10, IncidentUpdated None)]
   \<and> {w. \<exists>u \<in> set (users mixed_audience).
            role u \<in> {''doctor'', ''police'', ''volunteer'', ''command'', ''admin''}
            \<and> user_status u = Some ''active''
            \<and> Map_get (clients mixed_audience) (user_id u) = Some w
            \<and> readyState mixed_audience w = OPEN} = {10}"
proof -
  have v: "responder_sockets mixed_audience = [10]" "sent mixed_audience = []"
    by code_simp+
  from responders_targeting [of "IncidentUpdated None" mixed_audience] v show ?thesis
    by simp
qed

subsection \<open>The connection registry\<close>

text \<open>
  C8. When a user (a non-zero id) authenticates on the socket \<open>t1\<close> and then on the socket
  \<open>t2\<close>, the lookup of the user in \<^verbatim>\<open>clients\<close> gives \<open>t2\<close>, and a guarded send to the
  user's entry goes to \<open>t2\<close> when it is open and to no socket otherwise: never to a
  different socket \<open>t1\<close>.
\<close>

theorem reconnect_replaces:
  assumes "u \<noteq> 0"
  shows "let s2 = ws_message n2 t2 (Auth (Decoded (Some u)))
                    (ws_message n1 t1 (Auth (Decoded (Some u))) s)
         in Map_get (clients s2) u = Some t2
            \<and> sent (send_if_open (Map_get (clients s2) u) m s2)
                = sent s2 @ (if readyState s2 t2 = OPEN then [(t2, m)] else [])
            \<and> (t1 \<noteq> t2 \<longrightarrow> t1 \<notin> set (receives s2 (Map_get (clients s2) u)))"
  using assms by (simp add: ws_message_def Let_def send_if_open_def receives_def)

theorem reconnect_replaces_witness:
  "(2::int) \<noteq> 0
   \<and> Map_get (clients reconnected) 2 = Some 11
   \<and> sent (send_if_open (Map_get (clients reconnected) 2) (IncidentAccepted 1 (Some 3)) reconnected)
       = [(11, IncidentAccepted 1 (Some 3))]
   \<and> 10 \<notin> set (receives reconnected (Map_get (clients reconnected) 2))"
proof -
  have h: "(2::int) \<noteq> 0"
    by simp
  have v: "sent reconnected = []" "readyState reconnected 11 = OPEN"
    by code_simp+
  have t: "Map_get (clients reconnected) 2 = Some 11
       \<and> sent (send_if_open (Map_get (clients reconnected) 2) (IncidentAccepted 1 (Some 3)) reconnected)
            = sent reconnected @ (if readyState reconnected 11 = OPEN
                                 then [(11, IncidentAccepted 1 (Some 3))] else [])
       \<and> ((10::ws) \<noteq> 11 \<longrightarrow> 10 \<notin> set (receives reconnected (Map_get (clients reconnected) 2)))"
    unfolding reconnected_def
    by (rule reconnect_replaces [OF h, of 6 11 5 10 two_sockets "IncidentAccepted 1 (Some 3)",
          unfolded Let_def])
  have "sent (send_if_open (Map_get (clients reconnected) 2) (IncidentAccepted 1 (Some 3)) reconnected)
          = [(11, IncidentAccepted 1 (Some 3))]"
    using t v by auto
  moreover have "10 \<notin> set (receives reconnected (Map_get (clients reconnected) 2))"
    using t by auto
  ultimately show ?thesis
    using t h by blast
qed

text \<open>
  C9. When a user authenticates on \<open>t1\<close>, then on another socket \<open>t2\<close>, and \<open>t1\<close> closes,
  the close handler deletes the user's entry although it holds \<open>t2\<close>: the lookup of the
  user is absent, no entry of \<^verbatim>\<open>clients\<close> has the user as key, \<open>t2\<close> is as open as it
  was, and unless \<open>t2\<close> was already registered for somebody else neither broadcast sends
  to it.
\<close>

theorem superseded_close_unregisters:
  assumes "u \<noteq> 0" and "t1 \<noteq> t2"
  shows "let s3 = ws_close t1 (ws_message n2 t2 (Auth (Decoded (Some u)))
                    (ws_message n1 t1 (Auth (Decoded (Some u))) s))
         in Map_get (clients s3) u = None
            \<and> u \<notin> fst ` set (clients s3)
            \<and> readyState s3 t2 = readyState s t2
            \<and> receives s3 (Map_get (clients s3) u) = []
            \<and> (t2 \<notin> snd ` set (clients s)
                 \<longrightarrow> t2 \<notin> set (responder_sockets s3) \<and> t2 \<notin> set (open_clients s3))"
proof -
  let ?s3 = "ws_close t1 (ws_message n2 t2 (Auth (Decoded (Some u)))
                    (ws_message n1 t1 (Auth (Decoded (Some u))) s))"
  have c: "clients ?s3 = Map_delete u (clients s)"
    using assms by (simp add: ws_close_def ws_message_def Let_def)
  have r: "readyState ?s3 t2 = readyState s t2"
    using assms by (simp add: ws_close_def ws_message_def Let_def)
  have g: "Map_get (clients ?s3) u = None"
    by (simp add: c)
  have sub: "snd ` set (clients ?s3) \<subseteq> snd ` set (clients s)"
    by (simp add: c Map_delete_snd)
  have "t2 \<notin> snd ` set (clients s) \<longrightarrow> t2 \<notin> set (responder_sockets ?s3) \<and> t2 \<notin> set (open_clients ?s3)"
    using sub responder_sockets_subset [of ?s3] open_clients_subset [of ?s3] by blast
  moreover have "u \<notin> fst ` set (clients ?s3)"
    using g Map_get_None [of "clients ?s3" u] by blast
  moreover have "receives ?s3 (Map_get (clients ?s3) u) = []"
    by (simp add: g receives_def)
  ultimately show ?thesis
    using g r by (simp add: Let_def)
qed

theorem superseded_close_unregisters_witness:
  "(2::int) \<noteq> 0 \<and> (10::ws) \<noteq> 11
   \<and> Map_get (clients (ws_close 10 reconnected)) 2 = None
   \<and> readyState (ws_close 10 reconnected) 11 = OPEN
   \<and> 11 \<notin> set (open_clients (ws_close 10 reconnected))
   \<and> 11 \<notin> set (responder_sockets (ws_close 10 reconnected))"
proof -
  have h: "(2::int) \<noteq> 0" "(10::ws) \<noteq> 11"
    by simp_all
  have v: "readyState two_sockets 11 = OPEN" "11 \<notin> snd ` set (clients two_sockets)"
    by (simp_all add: two_sockets_def mk_server_def)
  from superseded_close_unregisters [OF h, of 6 5 two_sockets] v h
  show ?thesis
    by (simp add: Let_def reconnected_def)
qed

subsection \<open>The incident routes\<close>

lemma get_incident_nth:
  "j < length rows \<Longrightarrow> incident_id (rows ! j) = i \<Longrightarrow> \<exists>r. get_incident i rows = Some r"
  by (cases "get_incident i rows") (auto simp add: get_incident_def find_None_iff)

lemma get_incident_None: "(get_incident i rows = None) = (i \<notin> incident_id ` set rows)"
  by (auto simp add: get_incident_def find_None_iff)

lemma sql_update_unknown:
  "i \<notin> incident_id ` set rows \<Longrightarrow> sql_update (\<lambda>r. incident_id r = i) f rows = (rows, 0)"
  by (induction rows) (auto simp add: sql_update_def)

text \<open>
  Whatever the request, \<^verbatim>\<open>POST /api/incidents\<close> answers with no id and sends nothing.
\<close>

lemma create_incident_never_answers:
  "fst (create_incident now ty la lo reporterId sev s) \<noteq> Inr k
   \<and> sent (snd (create_incident now ty la lo reporterId sev s)) = sent s"
  by (auto simp add: create_incident_def insert_incident_def Let_def split: option.splits sum.splits)

text \<open>
  C1, as the code has it. The accept route looks neither at the status nor at the
  responder of the row: for an incident that exists, accepted already or not, a request
  whose \<^verbatim>\<open>responderId\<close> is absent or names a user (or any at all when foreign keys are
  not enforced) is answered \<^verbatim>\<open>{ status: 'ok' }\<close>, and the row gets status accepted and the
  responder of this request.
\<close>

theorem accept_overwrites:
  assumes "j < length (incidents s)" and "incident_id (incidents s ! j) = i"
    and "foreign_keys s \<longrightarrow> fk_ok (users s) responderId"
  shows "fst (accept_incident now now_stats i responderId s) = Inr StatusOk
       \<and> incidents (snd (accept_incident now now_stats i responderId s)) ! j
           = (incidents s ! j)\<lparr>status := Accepted, responder_id := responderId, updated_at := now\<rparr>"
proof -
  let ?rows = "map (\<lambda>r. if incident_id r = i
                         then r\<lparr>status := Accepted, responder_id := responderId, updated_at := now\<rparr>
                         else r) (incidents s)"
  have "incident_id (?rows ! j) = i" "j < length ?rows"
    using assms by simp_all
  then obtain r where r: "get_incident i ?rows = Some r"
    using get_incident_nth by blast
  show ?thesis
    using assms r
    by (auto simp add: accept_incident_def sql_update_def Let_def broadcastStats_eq broadcastToResponders_eq
        send_if_open_eq)
qed

theorem accept_overwrites_witness:
  "0 < length (incidents accepted_case) \<and> incident_id (incidents accepted_case ! 0) = 1
   \<and> fk_ok (users accepted_case) (Some 3)
   \<and> status (incidents accepted_case ! 0) = Accepted
   \<and> fst (accept_incident 500 500 1 (Some 3) accepted_case) = Inr StatusOk
   \<and> incidents (snd (accept_incident 500 500 1 (Some 3) accepted_case)) ! 0
       = (incidents accepted_case ! 0)\<lparr>status := Accepted, responder_id := Some 3, updated_at := 500\<rparr>"
proof -
  have h: "0 < length (incidents accepted_case)" "incident_id (incidents accepted_case ! 0) = 1"
    "foreign_keys accepted_case \<longrightarrow> fk_ok (users accepted_case) (Some 3)"
    "fk_ok (users accepted_case) (Some 3)" "status (incidents accepted_case ! 0) = Accepted"
    by code_simp+
  from accept_overwrites [OF h(1,2,3), where now = 500 and now_stats = 500] h show ?thesis
    by blast
qed

text \<open>
  C1 as stated fails: the incident is accepted with the doctor (user 2) as responder; an
  accept by the police officer (user 3) is answered ok and makes user 3 the responder.
\<close>

theorem second_accept_counterexample:
  "status (incidents accepted_case ! 0) = Accepted
   \<and> responder_id (incidents accepted_case ! 0) = Some 2
   \<and> fst (accept_incident 500 500 1 (Some 3) accepted_case) = Inr StatusOk
   \<and> responder_id (incidents (snd (accept_incident 500 500 1 (Some 3) accepted_case)) ! 0) = Some 3"
  by code_simp

text \<open>
  What the resolve route does with any request: it answers ok, sets every row with the id
  to resolved, and appends the two broadcasts.
\<close>

lemma compute_stats_sent_irrelevant:
  "incidents t = incidents s \<Longrightarrow> users t = users s \<Longrightarrow> compute_stats now t = compute_stats now s"
  by (simp add: compute_stats_def)

lemma resolve_incident_eq:
  "resolve_incident now now_stats i actor s =
     (Inr StatusOk,
      s\<lparr>incidents := map (\<lambda>r. if incident_id r = i then r\<lparr>status := Resolved, updated_at := now\<rparr> else r)
                         (incidents s),
        sent := sent s
          @ map (\<lambda>w. (w, IncidentUpdated (get_incident i
                   (map (\<lambda>r. if incident_id r = i then r\<lparr>status := Resolved, updated_at := now\<rparr> else r)
                      (incidents s))))) (responder_sockets s)
          @ map (\<lambda>w. (w, StatsUpdate (compute_stats now_stats
                   (s\<lparr>incidents := map (\<lambda>r. if incident_id r = i
                                              then r\<lparr>status := Resolved, updated_at := now\<rparr> else r)
                                     (incidents s)\<rparr>)))) (open_clients s)\<rparr>)"
  by (simp add: resolve_incident_def sql_update_def Let_def broadcastStats_eq broadcastToResponders_eq)

text \<open>
  C2, as the code has it. The check of responder, reporter and admin role is in the
  client's \<^verbatim>\<open>resolveIncident\<close>: for a logged-in user who is not an admin and who, in the
  client's copy of the incident (or without a copy), is neither its responder nor its
  reporter, the client shows the error toast and sends no request, so the client and the
  server (incident status and log of frames included) stay as they are. The server's
  route makes no such check: whoever the acting user is, a request that reaches it is
  answered \<^verbatim>\<open>{ status: 'ok' }\<close>, every row with the id becomes resolved with a fresh
  \<^verbatim>\<open>updated_at\<close>, the \<^verbatim>\<open>incident_updated\<close> frame goes to the responders' open sockets and
  the \<^verbatim>\<open>stats_update\<close> to every open registered socket.
\<close>

theorem client_resolve_guard:
  assumes "client_user c = Some u" and "cu_role u \<noteq> ''admin''"
    and "case find (\<lambda>r. incident_id r = i) (client_incidents c) of
           None \<Rightarrow> True
         | Some r \<Rightarrow> responder_id r \<noteq> Some (cu_id u) \<and> reporter_id r \<noteq> Some (cu_id u)"
  shows "resolveIncident now now_stats i c s
           = (Some (ToastError ''Only the assigned responder or the reporter can resolve this.''), c, s)
       \<and> fst (resolve_incident now now_stats i actor s) = Inr StatusOk
       \<and> incidents (snd (resolve_incident now now_stats i actor s))
           = map (\<lambda>r. if incident_id r = i then r\<lparr>status := Resolved, updated_at := now\<rparr> else r)
               (incidents s)
       \<and> (\<forall>j<length (incidents s). incident_id (incidents s ! j) = i
              \<longrightarrow> status (incidents (snd (resolve_incident now now_stats i actor s)) ! j) = Resolved)
       \<and> sent (snd (resolve_incident now now_stats i actor s))
           = sent s
             @ map (\<lambda>w. (w, IncidentUpdated (get_incident i (incidents (snd (resolve_incident now now_stats i actor s))))))
                 (responder_sockets s)
             @ map (\<lambda>w. (w, StatsUpdate (compute_stats now_stats (snd (resolve_incident now now_stats i actor s)))))
                 (open_clients s)"
proof -
  have "opt_responder_id (find (\<lambda>r. incident_id r = i) (client_incidents c)) \<noteq> Num (cu_id u)"
    using assms(3) by (cases "find (\<lambda>r. incident_id r = i) (client_incidents c)")
      (auto simp add: opt_responder_id_def elim: column.elims)
  moreover have "opt_reporter_id (find (\<lambda>r. incident_id r = i) (client_incidents c)) \<noteq> Num (cu_id u)"
    using assms(3) by (cases "find (\<lambda>r. incident_id r = i) (client_incidents c)")
      (auto simp add: opt_reporter_id_def elim: column.elims)
  ultimately have client: "resolveIncident now now_stats i c s
           = (Some (ToastError ''Only the assigned responder or the reporter can resolve this.''), c, s)"
    using assms(1,2) by (simp add: resolveIncident_def opt_user_id_def Let_def)
  have stats: "compute_stats now_stats (snd (resolve_incident now now_stats i actor s))
      = compute_stats now_stats (s\<lparr>incidents := map (\<lambda>r. if incident_id r = i
                                              then r\<lparr>status := Resolved, updated_at := now\<rparr> else r)
                                     (incidents s)\<rparr>)"
    by (rule compute_stats_sent_irrelevant) (simp_all add: resolve_incident_eq)
  show ?thesis
    by (simp only: client stats) (simp add: resolve_incident_eq)
qed

theorem client_resolve_guard_witness:
  "client_user volunteer_client = Some \<lparr>cu_id = 5, cu_role = ''volunteer''\<rparr>
   \<and> ''volunteer'' \<noteq> ''admin''
   \<and> find (\<lambda>r. incident_id r = 1) (client_incidents volunteer_client) = Some (incidents accepted_case ! 0)
   \<and> responder_id (incidents accepted_case ! 0) = Some 2
   \<and> reporter_id (incidents accepted_case ! 0) = Some 4
   \<and> resolveIncident 500 500 1 volunteer_client accepted_case
       = (Some (ToastError ''Only the assigned responder or the reporter can resolve this.''),
          volunteer_client, accepted_case)
   \<and> 0 < length (incidents accepted_case) \<and> incident_id (incidents accepted_case ! 0) = 1
   \<and> fst (resolve_incident 500 500 1 (Some 5) accepted_case) = Inr StatusOk
   \<and> status (incidents (snd (resolve_incident 500 500 1 (Some 5) accepted_case)) ! 0) = Resolved
   \<and> map fst (sent (snd (resolve_incident 500 500 1 (Some 5) accepted_case))) = [10, 10, 11]"
proof -
  have f: "find (\<lambda>r. incident_id r = 1) (client_incidents volunteer_client) = Some (incidents accepted_case ! 0)"
    "responder_id (incidents accepted_case ! 0) = Some 2"
    "reporter_id (incidents accepted_case ! 0) = Some 4"
    by code_simp+
  have h: "client_user volunteer_client = Some \<lparr>cu_id = 5, cu_role = ''volunteer''\<rparr>"
    "cu_role \<lparr>cu_id = 5, cu_role = ''volunteer''\<rparr> \<noteq> ''admin''"
    "case find (\<lambda>r. incident_id r = 1) (client_incidents volunteer_client) of
           None \<Rightarrow> True
         | Some r \<Rightarrow> responder_id r \<noteq> Some (cu_id \<lparr>cu_id = 5, cu_role = ''volunteer''\<rparr>)
                     \<and> reporter_id r \<noteq> Some (cu_id \<lparr>cu_id = 5, cu_role = ''volunteer''\<rparr>)"
    by (simp_all add: f) (simp add: volunteer_client_def)
  have v: "0 < length (incidents accepted_case)" "incident_id (incidents accepted_case ! 0) = 1"
    "sent accepted_case = []" "responder_sockets accepted_case = [10]"
    "open_clients accepted_case = [10, 11]"
    by code_simp+
  note t = client_resolve_guard [OF h, where now = 500 and now_stats = 500 and s = accepted_case and actor = "Some 5"]
  from t have t1: "resolveIncident 500 500 1 volunteer_client accepted_case
       = (Some (ToastError ''Only the assigned responder or the reporter can resolve this.''),
          volunteer_client, accepted_case)"
    by blast
  from t have t2: "fst (resolve_incident 500 500 1 (Some 5) accepted_case) = Inr StatusOk"
    by blast
  from t v have t3: "status (incidents (snd (resolve_incident 500 500 1 (Some 5) accepted_case)) ! 0) = Resolved"
    by blast
  from t have "sent (snd (resolve_incident 500 500 1 (Some 5) accepted_case))
           = sent accepted_case
             @ map (\<lambda>w. (w, IncidentUpdated (get_incident 1
                     (incidents (snd (resolve_incident 500 500 1 (Some 5) accepted_case))))))
                 (responder_sockets accepted_case)
             @ map (\<lambda>w. (w, StatsUpdate (compute_stats 500 (snd (resolve_incident 500 500 1 (Some 5) accepted_case)))))
                 (open_clients accepted_case)"
    by blast
  then have t4: "map fst (sent (snd (resolve_incident 500 500 1 (Some 5) accepted_case))) = [10, 10, 11]"
    by (simp add: v)
  from t1 t2 t3 t4 h f v show ?thesis
    by simp
qed

text \<open>
  C2 as stated fails on the server: a resolve request in the name of the volunteer
  (user 5), who is neither responder (2) nor reporter (4) nor admin, is answered ok, the
  incident becomes resolved, and three frames are sent.
\<close>

theorem server_resolve_unguarded_counterexample:
  "user_id (users accepted_case ! 4) = 5 \<and> role (users accepted_case ! 4) = ''volunteer''
   \<and> responder_id (incidents accepted_case ! 0) = Some 2
   \<and> reporter_id (incidents accepted_case ! 0) = Some 4
   \<and> status (incidents accepted_case ! 0) = Accepted
   \<and> fst (resolve_incident 500 500 1 (Some 5) accepted_case) = Inr StatusOk
   \<and> status (incidents (snd (resolve_incident 500 500 1 (Some 5) accepted_case)) ! 0) = Resolved
   \<and> sent accepted_case = []
   \<and> length (sent (snd (resolve_incident 500 500 1 (Some 5) accepted_case))) = 3"
  by code_simp

text \<open>
  C4, as the code has it. For an id that names no incident, the accept request is
  rejected: the handler throws on the missing row (Express answers 500), and the whole
  state is as before, so no row has changed and nothing was sent. The resolve request is
  not rejected: it changes no row either, but it is answered \<^verbatim>\<open>{ status: 'ok' }\<close> and
  still broadcasts an \<^verbatim>\<open>incident_updated\<close> frame without incident to the responders and
  a \<^verbatim>\<open>stats_update\<close> to every open socket.
\<close>

theorem unknown_incident:
  assumes "i \<notin> incident_id ` set (incidents s)"
  shows "accept_incident now now_stats i responderId s
           = (Inl (TypeError ''Cannot read properties of undefined''), s)
       \<and> fst (resolve_incident now now_stats i actor s) = Inr StatusOk
       \<and> snd (resolve_incident now now_stats i actor s)
           = s\<lparr>sent := sent s @ map (\<lambda>w. (w, IncidentUpdated None)) (responder_sockets s)
                              @ map (\<lambda>w. (w, StatsUpdate (compute_stats now_stats s))) (open_clients s)\<rparr>"
  using assms get_incident_None [of i "incidents s"]
  by (simp add: accept_incident_def resolve_incident_def sql_update_unknown Let_def
      broadcastStats_eq broadcastToResponders_eq)

theorem unknown_incident_witness:
  "incidents accepted_case \<noteq> [] \<and> 7 \<notin> incident_id ` set (incidents accepted_case)
   \<and> accept_incident 500 500 7 (Some 2) accepted_case
       = (Inl (TypeError ''Cannot read properties of undefined''), accepted_case)
   \<and> fst (resolve_incident 500 500 7 (Some 5) accepted_case) = Inr StatusOk
   \<and> incidents (snd (resolve_incident 500 500 7 (Some 5) accepted_case)) = incidents accepted_case
   \<and> sent (snd (resolve_incident 500 500 7 (Some 5) accepted_case))
       = [(10, IncidentUpdated None),
          (10, StatsUpdate \<lparr>totalIncidents = 1, activeResponders = 3, resolvedToday = 0, safetyScore = 84\<rparr>),
          (11, StatsUpdate \<lparr>totalIncidents = 1, activeResponders = 3, resolvedToday = 0, safetyScore = 84\<rparr>)]"
proof -
  have h: "7 \<notin> incident_id ` set (incidents accepted_case)"
    by (simp add: accepted_case_def mk_server_def mk_incident_def)
  have v: "sent accepted_case = []" "responder_sockets accepted_case = [10]"
    "open_clients accepted_case = [10, 11]" "incidents accepted_case \<noteq> []"
    "compute_stats 500 accepted_case
       = \<lparr>totalIncidents = 1, activeResponders = 3, resolvedToday = 0, safetyScore = 84\<rparr>"
    by code_simp+
  from unknown_incident [OF h, where now = 500 and now_stats = 500 and responderId = "Some 2" and actor = "Some 5"] h v show ?thesis
    by simp
qed

text \<open>
  C4 as stated fails: with incident 1 in the table, resolving incident 7 is answered ok
  and sends three frames.
\<close>

theorem resolve_unknown_counterexample:
  "length (incidents accepted_case) = 1 \<and> incident_id (incidents accepted_case ! 0) = 1
   \<and> sent accepted_case = []
   \<and> fst (resolve_incident 500 500 7 (Some 5) accepted_case) = Inr StatusOk
   \<and> sent (snd (resolve_incident 500 500 7 (Some 5) accepted_case))
       = [(10, IncidentUpdated None),
          (10, StatsUpdate \<lparr>totalIncidents = 1, activeResponders = 3, resolvedToday = 0, safetyScore = 84\<rparr>),
          (11, StatsUpdate \<lparr>totalIncidents = 1, activeResponders = 3, resolvedToday = 0, safetyScore = 84\<rparr>)]"
  by code_simp

text \<open>
  C3 fails on the code. A well-formed request (type, coordinates and an existing reporter)
  inserts the incident with status triggered, and then the handler throws the
  \<^verbatim>\<open>ReferenceError\<close>: the caller gets no id, and although the admin's socket is open
  and would be sent both frames, nothing is sent.
\<close>

theorem create_incident_throws:
  "fst (create_incident 1000 (Some ''medical'') (Some 51.5) (Some (-0.09)) (Some 4) (Some ''critical'')
          no_incidents) = Inl (ReferenceError ''language is not defined'')
   \<and> incidents (snd (create_incident 1000 (Some ''medical'') (Some 51.5) (Some (-0.09)) (Some 4)
                       (Some ''critical'') no_incidents))
       = [mk_incident 1 Triggered (Some 4) None 1000]
   \<and> responder_sockets no_incidents = [10] \<and> open_clients no_incidents = [10]
   \<and> sent (snd (create_incident 1000 (Some ''medical'') (Some 51.5) (Some (-0.09)) (Some 4)
                  (Some ''critical'') no_incidents)) = []"
  by code_simp

end
